theory Spec2Isabelle
  imports Complex_Main "HOL-Library.AList"
begin

section \<open>Strings\<close>

text \<open>
  A Python \<open>str\<close> is modelled as a \<open>string\<close>, one \<open>char\<close> per character, so that
  \<open>len\<close> is \<open>length\<close>. Python integers are \<open>int\<close>; a length is a \<open>nat\<close>.
\<close>

abbreviation NL :: string where
  "NL \<equiv> [CHR 0x0A]"

text \<open>
  The slice \<open>s[:k]\<close> for an integer \<open>k\<close>: the first \<open>k\<close> characters when \<open>k\<close> is not
  negative, all but the last \<open>-k\<close> characters when it is.
\<close>

definition slice_to :: "int \<Rightarrow> 'a list \<Rightarrow> 'a list" where
  "slice_to k s = (if 0 \<le> k then take (nat k) s else take (length s - nat (- k)) s)"

text \<open>
  \<open>str.isspace\<close> on one character, for the characters a \<open>char\<close> can hold: the ASCII
  white space, the four separators \<open>0x1C\<close> to \<open>0x1F\<close>, \<open>0x85\<close> and \<open>0xA0\<close>.
\<close>

definition isspace :: "char \<Rightarrow> bool" where
  "isspace c = (let n = (of_char c :: nat) in
     (9 \<le> n \<and> n \<le> 13) \<or> (28 \<le> n \<and> n \<le> 32) \<or> n = 133 \<or> n = 160)"

text \<open>
  \<open>content.split()\<close> with no argument: the maximal runs of characters that are not white
  space, in order. \<open>w\<close> is the run being read.
\<close>

fun split_from :: "string \<Rightarrow> string \<Rightarrow> string list" where
  "split_from w [] = (if w = [] then [] else [w])"
| "split_from w (c # cs) =
     (if isspace c then (if w = [] then split_from [] cs else w # split_from [] cs)
      else split_from (w @ [c]) cs)"

definition str_split :: "string \<Rightarrow> string list" where
  "str_split s = split_from [] s"

section \<open>Configuration (src/config.py)\<close>

record settings =
  app_name :: string
  app_version :: string
  debug :: bool
  openai_api_key :: string
  openai_model :: string
  max_tokens :: int
  max_document_length :: int
  max_documents :: int
  max_question_length :: int
  context_max_chars :: int
  log_level :: string

definition default_settings :: settings where
  "default_settings = \<lparr>
     app_name = ''Document Q&A API'',
     app_version = ''1.0.0'',
     debug = False,
     openai_api_key = [],
     openai_model = ''gpt-4o-mini'',
     max_tokens = 1500,
     max_document_length = 50000,
     max_documents = 100,
     max_question_length = 1000,
     context_max_chars = 15000,
     log_level = ''INFO'' \<rparr>"

section \<open>The Q&A service (src/qa_service.py)\<close>

subsection \<open>Context window management\<close>

text \<open>
  Lines 91 to 98 of \<open>QAService.answer_question\<close>: a document longer than \<open>max_chars\<close> is cut
  with the slice \<open>document_content[:max_chars]\<close> and the marker is appended. The warning
  that is logged is not modelled.
\<close>

definition truncation_marker :: string where
  "truncation_marker = NL @ NL @ ''[... Document truncated for processing ...]''"

definition reduce_context :: "int \<Rightarrow> string \<Rightarrow> string" where
  "reduce_context max_chars document_content =
     (if int (length document_content) > max_chars
      then slice_to max_chars document_content @ truncation_marker
      else document_content)"

subsection \<open>The prompt\<close>

text \<open>Lines 104 to 112: the f-string, piece by piece.\<close>

definition build_prompt :: "string \<Rightarrow> string \<Rightarrow> string \<Rightarrow> string" where
  "build_prompt document_title document_content question =
     ''=== DOCUMENT TITLE: '' @ document_title @ '' ==='' @ NL @ NL @
     document_content @ NL @ NL @
     ''=== END OF DOCUMENT ==='' @ NL @ NL @
     ''=== QUESTION ==='' @ NL @
     question @ NL @
     ''=== END OF QUESTION ==='' @ NL @ NL @
     ''Answer the question using ONLY the document above.''"

subsection \<open>The language-model call\<close>

text \<open>
  What \<open>json.loads\<close> gives for a model reply: the values of a decoded JSON text. The
  mapping returned by the model call is a Python \<open>dict\<close> with string keys.
\<close>

datatype json =
    JNull
  | JBool bool
  | JInt int
  | JFloat real
  | JStr string
  | JArr "json list"
  | JObj "(string \<times> json) list"

type_synonym result_dict = "string \<rightharpoonup> json"

text \<open>
  The two classes of exception that the handler of \<open>POST /documents/{id}/ask\<close> tells
  apart: \<open>ValueError\<close> (with its subclasses) and every other \<open>Exception\<close>.
\<close>

datatype py_exception = ValueError | OtherException

text \<open>
  Modelled from the spec: \<open>src/llm_service.py\<close>, which defines
  \<open>llm_service.generate_json\<close>, is not among the sources. Following sections 4.3 and 9 of
  the specification, the model client is a black box from the prompt to the raw reply (with
  the system message \<open>QA_SYSTEM_PROMPT\<close> and the temperature \<open>0.1\<close> fixed inside it), which
  makes a single attempt and may fail (\<open>None\<close>); such a failure is a processing failure and
  not a malformed response. The raw reply is then decoded into a mapping; a reply that is
  not valid structured data (\<open>decode raw = None\<close>) is the malformed-response condition, a
  \<open>ValueError\<close> to the caller.
\<close>

definition generate_json ::
  "(string \<Rightarrow> string option) \<Rightarrow> (string \<Rightarrow> result_dict option) \<Rightarrow> string
     \<Rightarrow> py_exception + result_dict" where
  "generate_json client decode prompt =
     (case client prompt of
        None \<Rightarrow> Inl OtherException
      | Some raw \<Rightarrow>
          (case decode raw of
             None \<Rightarrow> Inl ValueError
           | Some result \<Rightarrow> Inr result))"

text \<open>
  \<open>QAService.answer_question\<close>: reduce the context, build the prompt, call the model, return
  the decoded mapping. The log lines read \<open>question[:80]\<close> and \<open>result.get\<close>, which cannot
  fail on a string and on a \<open>dict\<close>.
\<close>

definition answer_question ::
  "settings \<Rightarrow> (string \<Rightarrow> string option) \<Rightarrow> (string \<Rightarrow> result_dict option)
     \<Rightarrow> string \<Rightarrow> string \<Rightarrow> string \<Rightarrow> py_exception + result_dict" where
  "answer_question cfg client decode document_content question document_title =
     (let max_chars = context_max_chars cfg;
          document_content = reduce_context max_chars document_content;
          prompt = build_prompt document_title document_content question
      in generate_json client decode prompt)"

section \<open>The document store (src/document_store.py)\<close>

text \<open>
  A stored document is the \<open>dict\<close> built by \<open>DocumentStore.add\<close>. The store's \<open>_documents\<close>
  is a Python \<open>dict\<close>, which keeps its keys in the order of their first insertion: an
  association list. \<open>d[k] = v\<close> is \<open>AList.update\<close> (the value is replaced in place when
  the key is there, the pair is appended when it is not), \<open>del d[k]\<close> is \<open>AList.delete\<close>,
  \<open>d.get(k)\<close> is \<open>map_of\<close>.
\<close>

record document =
  content :: string
  title :: string
  word_count :: nat
  character_count :: nat
  created_at :: string

record document_store =
  documents :: "(string \<times> document) list"

definition init_store :: document_store where
  "init_store = \<lparr> documents = [] \<rparr>"

text \<open>
  \<open>add\<close> draws \<open>uuid.uuid4()\<close> and reads the clock; both are inputs here: \<open>uuid4\<close> is
  \<open>str(uuid.uuid4())\<close> and \<open>utcnow\<close> is \<open>datetime.utcnow().isoformat()\<close>.
\<close>

definition add ::
  "string \<Rightarrow> string \<Rightarrow> string \<Rightarrow> string \<Rightarrow> document_store \<Rightarrow> string \<times> document_store" where
  "add uuid4 utcnow content' title' self =
     (let doc_id = take 8 uuid4
      in (doc_id,
          self\<lparr> documents := AList.update doc_id
            \<lparr> content = content',
              title = title',
              word_count = length (str_split content'),
              character_count = length content',
              created_at = utcnow \<rparr> (documents self) \<rparr>))"

definition get :: "document_store \<Rightarrow> string \<Rightarrow> document option" where
  "get self doc_id = map_of (documents self) doc_id"

definition get_content :: "document_store \<Rightarrow> string \<Rightarrow> string option" where
  "get_content self doc_id =
     (case map_of (documents self) doc_id of
        Some doc \<Rightarrow> Some (content doc)
      | None \<Rightarrow> None)"

text \<open>
  The metadata of a document, in the order \<open>id\<close>, \<open>title\<close>, \<open>word_count\<close>,
  \<open>character_count\<close>, \<open>created_at\<close>: the \<open>dict\<close> of \<open>list_all\<close> and the model
  \<open>DocumentMetadata\<close> of \<open>src/models.py\<close>, which has the same fields.
\<close>

datatype DocumentMetadata = DocumentMetadata string string nat nat string

definition list_all_docs :: "document_store \<Rightarrow> DocumentMetadata list" where
  "list_all_docs self =
     map (\<lambda>(doc_id, doc).
            DocumentMetadata doc_id (title doc) (word_count doc) (character_count doc)
              (created_at doc))
         (documents self)"

definition delete :: "string \<Rightarrow> document_store \<Rightarrow> bool \<times> document_store" where
  "delete doc_id self =
     (if doc_id \<in> set (map fst (documents self))
      then (True, self\<lparr> documents := AList.delete doc_id (documents self) \<rparr>)
      else (False, self))"

definition count :: "document_store \<Rightarrow> nat" where
  "count self = length (documents self)"

section \<open>The request and response models (src/models.py)\<close>

text \<open>
  \<open>DocumentUploadRequest\<close> holds \<open>content\<close> and \<open>title\<close>, \<open>QuestionRequest\<close> holds
  \<open>question\<close>, and \<open>DocumentDetail\<close> holds \<open>id\<close>, \<open>title\<close>, \<open>content\<close>, \<open>word_count\<close>,
  \<open>character_count\<close> and \<open>created_at\<close>, in this order. The framework checks the length
  bounds of a request body before a handler runs and answers 422 itself when they fail; the
  handlers below receive the request object.
\<close>

datatype DocumentUploadRequest = DocumentUploadRequest string string

datatype QuestionRequest = QuestionRequest string

datatype DocumentDetail = DocumentDetail string string string nat nat string

datatype Confidence = HIGH | MEDIUM | LOW

record AnswerResponse =
  answer :: string
  confidence :: Confidence
  relevant_quotes :: "string list"
  not_found :: bool
  document_title :: string
  question :: string
  model_used :: string
  processing_time_ms :: real

text \<open>
  \<open>Confidence(value)\<close>: the member whose value is \<open>value\<close>, and \<open>ValueError\<close> when there is
  none. The members' values are the strings \<open>high\<close>, \<open>medium\<close> and \<open>low\<close>.
\<close>

definition Confidence_of :: "json \<Rightarrow> py_exception + Confidence" where
  "Confidence_of v =
     (if v = JStr ''high'' then Inr HIGH
      else if v = JStr ''medium'' then Inr MEDIUM
      else if v = JStr ''low'' then Inr LOW
      else Inl ValueError)"

text \<open>
  The validation that constructing an \<open>AnswerResponse\<close> runs on the three fields filled from
  the model's mapping. A field of type \<open>str\<close> takes a string, a field of type \<open>List[str]\<close>
  takes a list whose elements are all strings, and a field of type \<open>bool\<close> takes a boolean.
  For a value that is not a boolean the library's lax mode accepts a few values (such as the
  integers 0 and 1) and refuses the others: \<open>lax_bool\<close> is that table, a parameter of the
  model. A value that is refused raises \<open>ValidationError\<close>, a subclass of \<open>ValueError\<close>.
\<close>

definition validate_str :: "json \<Rightarrow> string option" where
  "validate_str v = (case v of JStr s \<Rightarrow> Some s | _ \<Rightarrow> None)"

fun validate_str_list :: "json list \<Rightarrow> string list option" where
  "validate_str_list [] = Some []"
| "validate_str_list (v # vs) =
     (case validate_str v of
        None \<Rightarrow> None
      | Some s \<Rightarrow> (case validate_str_list vs of None \<Rightarrow> None | Some ss \<Rightarrow> Some (s # ss)))"

definition validate_list_of_str :: "json \<Rightarrow> string list option" where
  "validate_list_of_str v = (case v of JArr vs \<Rightarrow> validate_str_list vs | _ \<Rightarrow> None)"

definition validate_bool :: "(json \<Rightarrow> bool option) \<Rightarrow> json \<Rightarrow> bool option" where
  "validate_bool lax_bool v = (case v of JBool b \<Rightarrow> Some b | _ \<Rightarrow> lax_bool v)"

definition new_AnswerResponse ::
  "(json \<Rightarrow> bool option) \<Rightarrow> json \<Rightarrow> Confidence \<Rightarrow> json \<Rightarrow> json \<Rightarrow> string \<Rightarrow> string \<Rightarrow> string
     \<Rightarrow> real \<Rightarrow> py_exception + AnswerResponse" where
  "new_AnswerResponse lax_bool answer' confidence' relevant_quotes' not_found'
       document_title' question' model_used' processing_time_ms' =
     (case (validate_str answer', validate_list_of_str relevant_quotes',
            validate_bool lax_bool not_found') of
        (Some a, Some qs, Some nf) \<Rightarrow>
          Inr \<lparr> answer = a, confidence = confidence', relevant_quotes = qs, not_found = nf,
                document_title = document_title', question = question',
                model_used = model_used', processing_time_ms = processing_time_ms' \<rparr>
      | _ \<Rightarrow> Inl ValueError)"

section \<open>The endpoints (src/main.py)\<close>

text \<open>
  A handler returns its body, or raises \<open>HTTPException\<close> with a status code. The detail
  text of an exception and the log lines are not modelled.
\<close>

datatype http_exception = HTTPException nat

text \<open>\<open>result.get(key, default)\<close> on the mapping returned by the Q&A service.\<close>

definition dict_get :: "result_dict \<Rightarrow> string \<Rightarrow> json \<Rightarrow> json" where
  "dict_get result key dflt = (case result key of None \<Rightarrow> dflt | Some v \<Rightarrow> v)"

text \<open>
  Lines 190 to 199 of \<open>ask_question\<close>: the mapping is read field by field, each with its
  default, the confidence goes through \<open>Confidence(...)\<close>, and the \<open>AnswerResponse\<close> is
  constructed. \<open>elapsed_ms\<close> is the time measured around the call.
\<close>

definition interpret_result ::
  "(json \<Rightarrow> bool option) \<Rightarrow> result_dict \<Rightarrow> string \<Rightarrow> string \<Rightarrow> string \<Rightarrow> real
     \<Rightarrow> py_exception + AnswerResponse" where
  "interpret_result lax_bool result doc_title request_question model elapsed_ms =
     (case Confidence_of (dict_get result ''confidence'' (JStr ''low'')) of
        Inl e \<Rightarrow> Inl e
      | Inr c \<Rightarrow>
          new_AnswerResponse lax_bool
            (dict_get result ''answer'' (JStr ''Unable to generate answer''))
            c
            (dict_get result ''relevant_quotes'' (JArr []))
            (dict_get result ''not_found'' (JBool False))
            doc_title request_question model elapsed_ms)"

text \<open>
  \<open>POST /documents\<close>. After \<open>add\<close> the handler reads the document back with \<open>get\<close>; were it
  not there, subscripting \<open>None\<close> would raise and the framework would answer 500.
\<close>

fun upload_document ::
  "settings \<Rightarrow> string \<Rightarrow> string \<Rightarrow> DocumentUploadRequest \<Rightarrow> document_store
     \<Rightarrow> (http_exception + DocumentMetadata) \<times> document_store" where
  "upload_document cfg uuid4 utcnow (DocumentUploadRequest content' title') store =
     (if int (count store) \<ge> max_documents cfg
      then (Inl (HTTPException 400), store)
      else
        (let (doc_id, store') = add uuid4 utcnow content' title' store
         in case get store' doc_id of
              None \<Rightarrow> (Inl (HTTPException 500), store')
            | Some doc \<Rightarrow>
                (Inr (DocumentMetadata doc_id (title doc) (word_count doc)
                        (character_count doc) (created_at doc)),
                 store')))"

text \<open>\<open>GET /documents/{doc_id}\<close>.\<close>

definition get_document :: "document_store \<Rightarrow> string \<Rightarrow> http_exception + DocumentDetail" where
  "get_document store doc_id =
     (case get store doc_id of
        None \<Rightarrow> Inl (HTTPException 404)
      | Some doc \<Rightarrow>
          Inr (DocumentDetail doc_id (title doc) (content doc) (word_count doc)
                 (character_count doc) (created_at doc)))"

text \<open>\<open>DELETE /documents/{doc_id}\<close>: the body is the confirmation message.\<close>

definition delete_document ::
  "document_store \<Rightarrow> string \<Rightarrow> (http_exception + string) \<times> document_store" where
  "delete_document store doc_id =
     (let (deleted, store') = delete doc_id store
      in if \<not> deleted then (Inl (HTTPException 404), store')
         else (Inr (''Document '' @ doc_id @ '' deleted successfully''), store'))"

text \<open>
  \<open>POST /documents/{doc_id}/ask\<close>: 404 before the \<open>try\<close> block; inside it a \<open>ValueError\<close>
  becomes 422 and any other exception 500.
\<close>

fun ask_question ::
  "settings \<Rightarrow> (string \<Rightarrow> string option) \<Rightarrow> (string \<Rightarrow> result_dict option)
     \<Rightarrow> (json \<Rightarrow> bool option) \<Rightarrow> real \<Rightarrow> document_store \<Rightarrow> string \<Rightarrow> QuestionRequest
     \<Rightarrow> http_exception + AnswerResponse" where
  "ask_question cfg client decode lax_bool elapsed_ms store doc_id (QuestionRequest q) =
     (case get store doc_id of
        None \<Rightarrow> Inl (HTTPException 404)
      | Some doc \<Rightarrow>
          (case answer_question cfg client decode (content doc) q (title doc) of
             Inl ValueError \<Rightarrow> Inl (HTTPException 422)
           | Inl OtherException \<Rightarrow> Inl (HTTPException 500)
           | Inr result \<Rightarrow>
               (case interpret_result lax_bool result (title doc) q (openai_model cfg)
                       elapsed_ms of
                  Inl ValueError \<Rightarrow> Inl (HTTPException 422)
                | Inl OtherException \<Rightarrow> Inl (HTTPException 500)
                | Inr response \<Rightarrow> Inr response)))"

section \<open>Sequences of store operations\<close>

text \<open>
  The operations of \<open>DocumentStore\<close>, with their arguments, and the state each leaves; a
  store is reachable when a sequence of operations leads to it from the empty store.
\<close>

datatype store_op =
    Add string string string string
  | Get string
  | GetContent string
  | ListAll
  | Delete string
  | Count

fun apply_op :: "document_store \<Rightarrow> store_op \<Rightarrow> document_store" where
  "apply_op self (Add uuid4 utcnow content' title') = snd (add uuid4 utcnow content' title' self)"
| "apply_op self (Get doc_id) = self"
| "apply_op self (GetContent doc_id) = self"
| "apply_op self ListAll = self"
| "apply_op self (Delete doc_id) = snd (delete doc_id self)"
| "apply_op self Count = self"

definition run_ops :: "store_op list \<Rightarrow> document_store" where
  "run_ops ops = foldl apply_op init_store ops"

section \<open>Legal field values\<close>

text \<open>
  The value of a member of \<open>Confidence\<close> (\<open>HIGH = "high"\<close> and so on), and what the
  specification calls a legal value of each of the four fields of a model reply: a string
  for \<open>answer\<close>, one of the three values for \<open>confidence\<close>, a sequence of strings for
  \<open>relevant_quotes\<close>, a boolean for \<open>not_found\<close>.
\<close>

fun Confidence_value :: "Confidence \<Rightarrow> string" where
  "Confidence_value HIGH = ''high''"
| "Confidence_value MEDIUM = ''medium''"
| "Confidence_value LOW = ''low''"

definition is_str :: "json \<Rightarrow> bool" where
  "is_str v = (case v of JStr s \<Rightarrow> True | _ \<Rightarrow> False)"

definition is_confidence_value :: "json \<Rightarrow> bool" where
  "is_confidence_value v = (v \<in> set (map (\<lambda>c. JStr (Confidence_value c)) [HIGH, MEDIUM, LOW]))"

definition is_list_of_str :: "json \<Rightarrow> bool" where
  "is_list_of_str v = (case v of JArr vs \<Rightarrow> list_all is_str vs | _ \<Rightarrow> False)"

definition is_bool :: "json \<Rightarrow> bool" where
  "is_bool v = (case v of JBool b \<Rightarrow> True | _ \<Rightarrow> False)"

fun absent_or :: "(json \<Rightarrow> bool) \<Rightarrow> json option \<Rightarrow> bool" where
  "absent_or P None = True"
| "absent_or P (Some v) = P v"

definition fields_absent_or_legal :: "result_dict \<Rightarrow> bool" where
  "fields_absent_or_legal result \<longleftrightarrow>
     absent_or is_str (result ''answer'')
     \<and> absent_or is_confidence_value (result ''confidence'')
     \<and> absent_or is_list_of_str (result ''relevant_quotes'')
     \<and> absent_or is_bool (result ''not_found'')"

text \<open>
  The fields that the construction of an \<open>AnswerResponse\<close> accepts: as above, but for
  \<open>not_found\<close> whatever the validation of a \<open>bool\<close> field accepts.
\<close>

definition fields_accepted :: "(json \<Rightarrow> bool option) \<Rightarrow> result_dict \<Rightarrow> bool" where
  "fields_accepted lax_bool result \<longleftrightarrow>
     absent_or is_str (result ''answer'')
     \<and> absent_or is_confidence_value (result ''confidence'')
     \<and> absent_or is_list_of_str (result ''relevant_quotes'')
     \<and> absent_or (\<lambda>v. validate_bool lax_bool v \<noteq> None) (result ''not_found'')"

text \<open>
  The derived fields of a stored document agree with its content: \<open>character_count\<close> is
  \<open>len(content)\<close> and \<open>word_count\<close> is \<open>len(content.split())\<close>.
\<close>

definition derived_fields_ok :: "document \<Rightarrow> bool" where
  "derived_fields_ok doc \<longleftrightarrow>
     character_count doc = length (content doc)
     \<and> word_count doc = length (str_split (content doc))"

section \<open>Context reduction\<close>

lemma length_truncation_marker: "length truncation_marker = 45"
  by (simp add: truncation_marker_def)

text \<open>
  Claim C4: for every content string and every limit with \<open>len(content) <= limit\<close>, context
  reduction returns the content unchanged.
\<close>

theorem reduce_context_identity:
  assumes "int (length document_content) \<le> limit"
  shows "reduce_context limit document_content = document_content"
  using assms by (simp add: reduce_context_def)

theorem reduce_context_identity_witness:
  "int (length ''abc'') \<le> 5 \<and> reduce_context 5 ''abc'' = ''abc''"
  using reduce_context_identity [of "''abc''" 5] by simp

text \<open>
  Claim C5, as amended: for every limit that is not negative and every content string with
  \<open>len(content) > limit\<close>, the result of context reduction starts with the first \<open>limit\<close>
  characters of the content, continues with the truncation marker (a blank-line separator
  and the fixed text) and nothing else, and so has length \<open>limit + len(marker)\<close>.
\<close>

theorem reduce_context_truncates:
  assumes "0 \<le> limit" and "int (length document_content) > limit"
  shows "take (nat limit) (reduce_context limit document_content)
           = take (nat limit) document_content
       \<and> drop (nat limit) (reduce_context limit document_content)
           = NL @ NL @ ''[... Document truncated for processing ...]''
       \<and> int (length (reduce_context limit document_content))
           = limit + int (length truncation_marker)"
  using assms by (auto simp add: reduce_context_def slice_to_def truncation_marker_def)

theorem reduce_context_truncates_witness:
  "(0::int) \<le> 2 \<and> int (length ''abcd'') > 2
     \<and> take (nat 2) (reduce_context 2 ''abcd'') = ''ab''
     \<and> drop (nat 2) (reduce_context 2 ''abcd'')
           = NL @ NL @ ''[... Document truncated for processing ...]''
     \<and> int (length (reduce_context 2 ''abcd'')) = 2 + int (length truncation_marker)"
  using reduce_context_truncates [of 2 "''abcd''"] by simp

text \<open>
  The limit is an integer of the configuration, and the statement of C5 without the bound
  fails when it is negative: with the limit \<open>-1\<close> the slice \<open>content[:-1]\<close> drops the last
  character, and the result for the two characters \<open>ab\<close> has 46 characters, not
  \<open>-1 + 45\<close>.
\<close>

theorem reduce_context_negative_limit:
  "int (length ''ab'') > - 1
     \<and> reduce_context (- 1) ''ab'' = ''a'' @ truncation_marker
     \<and> int (length (reduce_context (- 1) ''ab'')) = 46
     \<and> int (length (reduce_context (- 1) ''ab'')) \<noteq> - 1 + int (length truncation_marker)"
  by (simp add: reduce_context_def slice_to_def truncation_marker_def)

section \<open>The document store\<close>

lemma get_None_iff:
  "get self doc_id = None \<longleftrightarrow> doc_id \<notin> set (map fst (documents self))"
  by (simp add: get_def map_of_eq_None_iff)

lemma delete_result:
  "fst (delete doc_id self) \<longleftrightarrow> doc_id \<in> set (map fst (documents self))"
  by (simp add: delete_def)

lemma delete_absent:
  "doc_id \<notin> set (map fst (documents self)) \<Longrightarrow> delete doc_id self = (False, self)"
  by (simp add: delete_def)

lemma get_after_delete:
  "get (snd (delete doc_id self)) k = (if k = doc_id then None else get self k)"
proof (cases "doc_id \<in> set (map fst (documents self))")
  case True
  then show ?thesis by (simp add: delete_def get_def AList.delete_conv')
next
  case False
  then have "map_of (documents self) doc_id = None" by (simp add: map_of_eq_None_iff)
  with False show ?thesis by (simp add: delete_def get_def)
qed

lemma set_update_subset: "set (AList.update k v al) \<subseteq> insert (k, v) (set al)"
  by (induction al) auto

lemma set_delete_subset: "set (AList.delete k al) \<subseteq> set al"
  by (auto simp add: AList.delete_eq)

text \<open>
  The ids of a store reached from the empty store are pairwise distinct, as the keys of a
  \<open>dict\<close> are, so that the length of the list is \<open>len(self._documents)\<close>.
\<close>

lemma apply_op_distinct_ids:
  assumes "distinct (map fst (documents self))"
  shows "distinct (map fst (documents (apply_op self op)))"
  using assms
  by (cases op) (simp_all add: add_def delete_def Let_def AList.distinct_update AList.distinct_delete)

lemma run_ops_distinct_ids: "distinct (map fst (documents (run_ops ops)))"
proof (induction ops rule: rev_induct)
  case Nil
  show ?case by (simp add: run_ops_def init_store_def)
next
  case (snoc op ops)
  then show ?case
    using apply_op_distinct_ids [of "run_ops ops" op] by (simp add: run_ops_def)
qed

text \<open>
  Claim C6: for every store state whose document count is at or above the configured
  maximum, an upload is rejected with status 400 and the store (its mapping from ids to
  documents, and so its count) is left as it was: the check comes before any insertion.
\<close>

theorem upload_rejected_when_full:
  assumes "int (count store) \<ge> max_documents cfg"
  shows "upload_document cfg uuid4 utcnow request store = (Inl (HTTPException 400), store)"
  using assms by (cases request) simp

theorem upload_rejected_when_full_witness:
  "int (count
        \<lparr> documents = [(''1a2b3c4d'',
          \<lparr> content = ''Ten chars.'', title = ''T'', word_count = 2, character_count = 10,
            created_at = ''2026-11-03T00:00:00'' \<rparr>)] \<rparr>)
     \<ge> max_documents (default_settings\<lparr> max_documents := 1 \<rparr>)
   \<and> upload_document (default_settings\<lparr> max_documents := 1 \<rparr>)
        ''9f8e7d6c-0000-4000-8000-000000000000'' ''2026-11-03T00:00:01''
        (DocumentUploadRequest ''Another document.'' ''U'')
        \<lparr> documents = [(''1a2b3c4d'',
          \<lparr> content = ''Ten chars.'', title = ''T'', word_count = 2, character_count = 10,
            created_at = ''2026-11-03T00:00:00'' \<rparr>)] \<rparr>
      = (Inl (HTTPException 400),
        \<lparr> documents = [(''1a2b3c4d'',
          \<lparr> content = ''Ten chars.'', title = ''T'', word_count = 2, character_count = 10,
            created_at = ''2026-11-03T00:00:00'' \<rparr>)] \<rparr>)"
  using upload_rejected_when_full [of "default_settings\<lparr> max_documents := 1 \<rparr>"
        "\<lparr> documents = [(''1a2b3c4d'',
          \<lparr> content = ''Ten chars.'', title = ''T'', word_count = 2, character_count = 10,
            created_at = ''2026-11-03T00:00:00'' \<rparr>)] \<rparr>"
        "''9f8e7d6c-0000-4000-8000-000000000000''" "''2026-11-03T00:00:01''"
        "DocumentUploadRequest ''Another document.'' ''U''"]
  by (simp add: count_def default_settings_def)

text \<open>
  Claim C8: \<open>get\<close> returns \<open>None\<close> exactly when the id is absent; \<open>delete\<close> returns \<open>True\<close>
  exactly when the id is present, and then the id is gone and every other id is as before;
  for an absent id \<open>delete\<close> returns \<open>False\<close> and leaves the store alone, and the three
  endpoints \<open>GET /documents/{id}\<close>, \<open>DELETE /documents/{id}\<close> and
  \<open>POST /documents/{id}/ask\<close> each answer with the client error 404.
\<close>

theorem absent_document_is_404:
  "(get self doc_id = None \<longleftrightarrow> doc_id \<notin> set (map fst (documents self)))
   \<and> (fst (delete doc_id self) \<longleftrightarrow> doc_id \<in> set (map fst (documents self)))
   \<and> (doc_id \<in> set (map fst (documents self)) \<longrightarrow>
        get (snd (delete doc_id self)) doc_id = None
        \<and> (\<forall>k. k \<noteq> doc_id \<longrightarrow> get (snd (delete doc_id self)) k = get self k))
   \<and> (doc_id \<notin> set (map fst (documents self)) \<longrightarrow>
        snd (delete doc_id self) = self
        \<and> get_document self doc_id = Inl (HTTPException 404)
        \<and> delete_document self doc_id = (Inl (HTTPException 404), self)
        \<and> ask_question cfg client decode lax_bool elapsed_ms self doc_id request
             = Inl (HTTPException 404))"
proof -
  have absent: "get_document self doc_id = Inl (HTTPException 404)
        \<and> delete_document self doc_id = (Inl (HTTPException 404), self)
        \<and> ask_question cfg client decode lax_bool elapsed_ms self doc_id request
             = Inl (HTTPException 404)"
    if "doc_id \<notin> set (map fst (documents self))"
  proof -
    from that have g: "get self doc_id = None" by (simp add: get_None_iff)
    from that have d: "delete doc_id self = (False, self)" by (rule delete_absent)
    show ?thesis
      using g d by (cases request) (simp add: get_document_def delete_document_def)
  qed
  show ?thesis
    using absent by (simp add: get_None_iff delete_result get_after_delete delete_absent)
qed

theorem absent_document_is_404_witness:
  "''1a2b3c4d'' \<in> set (map fst (documents
        \<lparr> documents = [(''1a2b3c4d'',
          \<lparr> content = ''Ten chars.'', title = ''T'', word_count = 2, character_count = 10,
            created_at = ''2026-11-03T00:00:00'' \<rparr>)] \<rparr>))
   \<and> get
        \<lparr> documents = [(''1a2b3c4d'',
          \<lparr> content = ''Ten chars.'', title = ''T'', word_count = 2, character_count = 10,
            created_at = ''2026-11-03T00:00:00'' \<rparr>)] \<rparr>
        ''1a2b3c4d'' \<noteq> None
   \<and> fst (delete ''1a2b3c4d''
        \<lparr> documents = [(''1a2b3c4d'',
          \<lparr> content = ''Ten chars.'', title = ''T'', word_count = 2, character_count = 10,
            created_at = ''2026-11-03T00:00:00'' \<rparr>)] \<rparr>)
   \<and> get (snd (delete ''1a2b3c4d''
        \<lparr> documents = [(''1a2b3c4d'',
          \<lparr> content = ''Ten chars.'', title = ''T'', word_count = 2, character_count = 10,
            created_at = ''2026-11-03T00:00:00'' \<rparr>)] \<rparr>))
        ''1a2b3c4d'' = None
   \<and> ''nonexistent'' \<notin> set (map fst (documents
        \<lparr> documents = [(''1a2b3c4d'',
          \<lparr> content = ''Ten chars.'', title = ''T'', word_count = 2, character_count = 10,
            created_at = ''2026-11-03T00:00:00'' \<rparr>)] \<rparr>))
   \<and> get
        \<lparr> documents = [(''1a2b3c4d'',
          \<lparr> content = ''Ten chars.'', title = ''T'', word_count = 2, character_count = 10,
            created_at = ''2026-11-03T00:00:00'' \<rparr>)] \<rparr>
        ''nonexistent'' = None
   \<and> \<not> fst (delete ''nonexistent''
        \<lparr> documents = [(''1a2b3c4d'',
          \<lparr> content = ''Ten chars.'', title = ''T'', word_count = 2, character_count = 10,
            created_at = ''2026-11-03T00:00:00'' \<rparr>)] \<rparr>)
   \<and> snd (delete ''nonexistent''
        \<lparr> documents = [(''1a2b3c4d'',
          \<lparr> content = ''Ten chars.'', title = ''T'', word_count = 2, character_count = 10,
            created_at = ''2026-11-03T00:00:00'' \<rparr>)] \<rparr>)
       = \<lparr> documents = [(''1a2b3c4d'',
          \<lparr> content = ''Ten chars.'', title = ''T'', word_count = 2, character_count = 10,
            created_at = ''2026-11-03T00:00:00'' \<rparr>)] \<rparr>
   \<and> get_document
        \<lparr> documents = [(''1a2b3c4d'',
          \<lparr> content = ''Ten chars.'', title = ''T'', word_count = 2, character_count = 10,
            created_at = ''2026-11-03T00:00:00'' \<rparr>)] \<rparr>
        ''nonexistent'' = Inl (HTTPException 404)
   \<and> delete_document
        \<lparr> documents = [(''1a2b3c4d'',
          \<lparr> content = ''Ten chars.'', title = ''T'', word_count = 2, character_count = 10,
            created_at = ''2026-11-03T00:00:00'' \<rparr>)] \<rparr>
        ''nonexistent''
       = (Inl (HTTPException 404),
        \<lparr> documents = [(''1a2b3c4d'',
          \<lparr> content = ''Ten chars.'', title = ''T'', word_count = 2, character_count = 10,
            created_at = ''2026-11-03T00:00:00'' \<rparr>)] \<rparr>)
   \<and> ask_question default_settings (\<lambda>prompt. None) (\<lambda>raw. None) (\<lambda>v. None) 12.5
        \<lparr> documents = [(''1a2b3c4d'',
          \<lparr> content = ''Ten chars.'', title = ''T'', word_count = 2, character_count = 10,
            created_at = ''2026-11-03T00:00:00'' \<rparr>)] \<rparr>
        ''nonexistent'' (QuestionRequest ''What is this about?'')
       = Inl (HTTPException 404)"
  using absent_document_is_404 [of
        "\<lparr> documents = [(''1a2b3c4d'',
          \<lparr> content = ''Ten chars.'', title = ''T'', word_count = 2, character_count = 10,
            created_at = ''2026-11-03T00:00:00'' \<rparr>)] \<rparr>"
        "''1a2b3c4d''"]
    absent_document_is_404 [of
        "\<lparr> documents = [(''1a2b3c4d'',
          \<lparr> content = ''Ten chars.'', title = ''T'', word_count = 2, character_count = 10,
            created_at = ''2026-11-03T00:00:00'' \<rparr>)] \<rparr>"
        "''nonexistent''" default_settings "\<lambda>prompt. None" "\<lambda>raw. None" "\<lambda>v. None" "12.5"
        "QuestionRequest ''What is this about?''"]
  by simp

text \<open>
  Claim C9 says that \<open>add\<close> assigns an id distinct from every id in the store and never
  overwrites a document. The id is the first eight characters of a random UUID and \<open>add\<close>
  does not look whether it is taken: when the draw starts with the eight characters of an id
  of the store, the document under that id is replaced and the count stays the same.
\<close>

theorem add_overwrites_on_collision:
  "add ''deadbeef-1111-4111-8111-111111111111'' ''2026-11-03T00:00:01'' ''Second text'' ''B''
     \<lparr> documents = [(''deadbeef'', \<lparr> content = ''First text'', title = ''A'',
          word_count = 2, character_count = 10, created_at = ''2026-11-03T00:00:00'' \<rparr>)] \<rparr>
   = (''deadbeef'',
      \<lparr> documents = [(''deadbeef'', \<lparr> content = ''Second text'', title = ''B'',
          word_count = 2, character_count = 11, created_at = ''2026-11-03T00:00:01'' \<rparr>)] \<rparr>)
   \<and> run_ops
       [Add ''deadbeef-0000-4000-8000-000000000000'' ''2026-11-03T00:00:00'' ''First text'' ''A'',
        Add ''deadbeef-1111-4111-8111-111111111111'' ''2026-11-03T00:00:01'' ''Second text'' ''B'']
     = \<lparr> documents = [(''deadbeef'', \<lparr> content = ''Second text'', title = ''B'',
          word_count = 2, character_count = 11, created_at = ''2026-11-03T00:00:01'' \<rparr>)] \<rparr>"
  by (simp add: run_ops_def init_store_def add_def str_split_def isspace_def Let_def)

subsection \<open>The derived fields of stored documents\<close>

lemma apply_op_derived_fields:
  assumes "\<forall>(k, d) \<in> set (documents self). derived_fields_ok d"
  shows "\<forall>(k, d) \<in> set (documents (apply_op self op)). derived_fields_ok d"
proof (cases op)
  case (Add uuid4 utcnow c t)
  let ?doc = "\<lparr> content = c, title = t, word_count = length (str_split c),
                 character_count = length c, created_at = utcnow \<rparr>"
  have new: "derived_fields_ok ?doc" by (simp add: derived_fields_ok_def)
  have "documents (apply_op self op) = AList.update (take 8 uuid4) ?doc (documents self)"
    unfolding Add by (simp add: add_def Let_def)
  then have "set (documents (apply_op self op))
               \<subseteq> insert (take 8 uuid4, ?doc) (set (documents self))"
    by (simp add: set_update_subset)
  with assms new show ?thesis by auto
next
  case (Delete doc_id)
  show ?thesis
    using assms set_delete_subset [of doc_id "documents self"]
    unfolding Delete by (auto simp add: delete_def)
qed (use assms in simp_all)

lemma run_ops_derived_fields:
  "\<forall>(k, d) \<in> set (documents (run_ops ops)). derived_fields_ok d"
proof (induction ops rule: rev_induct)
  case Nil
  show ?case by (simp add: run_ops_def init_store_def)
next
  case (snoc op ops)
  then show ?case
    using apply_op_derived_fields [of "run_ops ops" op] by (simp add: run_ops_def)
qed

lemma apply_op_keeps_documents:
  assumes "\<forall>uuid4 utcnow c t. op \<noteq> Add uuid4 utcnow c t"
  shows "set (documents (apply_op self op)) \<subseteq> set (documents self)"
proof (cases op)
  case (Add uuid4 utcnow c t)
  with assms show ?thesis by simp
next
  case (Delete doc_id)
  show ?thesis
    using set_delete_subset [of doc_id "documents self"]
    unfolding Delete by (auto simp add: delete_def)
qed simp_all

text \<open>
  Claim C10: in every store reached from the empty store by a sequence of operations, every
  stored document has \<open>character_count = len(content)\<close> and
  \<open>word_count = len(content.split())\<close>; and an operation other than \<open>add\<close> (\<open>get\<close>,
  \<open>get_content\<close>, \<open>list_all\<close>, \<open>delete\<close>, \<open>count\<close>) leaves every document it keeps as it was
  stored, with the same fields under the same id.
\<close>

theorem stored_documents_derived_fields:
  "(\<forall>(doc_id, doc) \<in> set (documents (run_ops ops)).
       character_count doc = length (content doc)
       \<and> word_count doc = length (str_split (content doc)))
   \<and> ((\<forall>uuid4 utcnow c t. op \<noteq> Add uuid4 utcnow c t) \<longrightarrow>
        set (documents (apply_op (run_ops ops) op)) \<subseteq> set (documents (run_ops ops)))"
  using run_ops_derived_fields [of ops] apply_op_keeps_documents [of op "run_ops ops"]
  by (auto simp add: derived_fields_ok_def)

theorem stored_documents_derived_fields_witness:
  "(''0badcafe'',
      \<lparr> content = ''Second  text here'', title = ''B'', word_count = 3, character_count = 17,
         created_at = ''2026-11-03T00:00:01'' \<rparr>)
     \<in> set (documents (run_ops
         [Add ''1a2b3c4d-0000-4000-8000-000000000000'' ''2026-11-03T00:00:00'' ''First text'' ''A'',
          Add ''0badcafe-1111-4111-8111-111111111111'' ''2026-11-03T00:00:01''
            ''Second  text here'' ''B'',
          Get ''0badcafe'']))
   \<and> length ''Second  text here'' = 17
   \<and> length (str_split ''Second  text here'') = 3
   \<and> set (documents (apply_op (run_ops
         [Add ''1a2b3c4d-0000-4000-8000-000000000000'' ''2026-11-03T00:00:00'' ''First text'' ''A'',
          Add ''0badcafe-1111-4111-8111-111111111111'' ''2026-11-03T00:00:01''
            ''Second  text here'' ''B'',
          Get ''0badcafe'']) (Delete ''1a2b3c4d'')))
       = {(''0badcafe'',
      \<lparr> content = ''Second  text here'', title = ''B'', word_count = 3, character_count = 17,
         created_at = ''2026-11-03T00:00:01'' \<rparr>)}"
  using stored_documents_derived_fields [of
         "[Add ''1a2b3c4d-0000-4000-8000-000000000000'' ''2026-11-03T00:00:00'' ''First text'' ''A'',
          Add ''0badcafe-1111-4111-8111-111111111111'' ''2026-11-03T00:00:01''
            ''Second  text here'' ''B'',
          Get ''0badcafe'']" "Delete ''1a2b3c4d''"]
  by (simp add: run_ops_def init_store_def add_def delete_def str_split_def isspace_def Let_def)

section \<open>The prompt\<close>

lemma sections_of_concat:
  fixes A B C D t c q :: "'a list"
  assumes p: "p = A @ t @ B @ c @ C @ q @ D"
    and A: "length A = a" and B: "length B = b" and C: "length C = n"
  shows "take a p = A"
    and "take (length t) (drop a p) = t"
    and "take b (drop (a + length t) p) = B"
    and "take (length c) (drop (a + b + length t) p) = c"
    and "take n (drop (a + b + length t + length c) p) = C"
    and "take (length q) (drop (a + b + n + length t + length c) p) = q"
    and "drop (a + b + n + length t + length c + length q) p = D"
    and "length p = a + b + n + length D + length t + length c + length q"
  using A B C unfolding p by simp_all

text \<open>
  Claim C7: for every title \<open>t\<close>, content \<open>c\<close> and question \<open>q\<close> the prompt is one text
  made of, in this order and with nothing in between: the opening of the title section, the
  title, the closing of the title section and a blank line, the document body, the
  end-of-document marker and the opening of the question section, the question, the
  end-of-question marker and the instruction to answer only from the document above. The
  body and the question stand in it character for character.
\<close>

theorem prompt_sections:
  "take 20 (build_prompt t c q) = ''=== DOCUMENT TITLE: ''
   \<and> take (length t) (drop 20 (build_prompt t c q)) = t
   \<and> take 6 (drop (20 + length t) (build_prompt t c q)) = '' ==='' @ NL @ NL
   \<and> take (length c) (drop (26 + length t) (build_prompt t c q)) = c
   \<and> take 44 (drop (26 + length t + length c) (build_prompt t c q))
        = NL @ NL @ ''=== END OF DOCUMENT ==='' @ NL @ NL @ ''=== QUESTION ==='' @ NL
   \<and> take (length q) (drop (70 + length t + length c) (build_prompt t c q)) = q
   \<and> drop (70 + length t + length c + length q) (build_prompt t c q)
        = NL @ ''=== END OF QUESTION ==='' @ NL @ NL
          @ ''Answer the question using ONLY the document above.''
   \<and> length (build_prompt t c q) = 146 + length t + length c + length q"
proof -
  define A where "A = ''=== DOCUMENT TITLE: ''"
  define B where "B = '' ==='' @ NL @ NL"
  define C where
    "C = NL @ NL @ ''=== END OF DOCUMENT ==='' @ NL @ NL @ ''=== QUESTION ==='' @ NL"
  define D where "D = NL @ ''=== END OF QUESTION ==='' @ NL @ NL
          @ ''Answer the question using ONLY the document above.''"
  have p: "build_prompt t c q = A @ t @ B @ c @ C @ q @ D"
    by (simp add: build_prompt_def A_def B_def C_def D_def)
  have A: "length A = 20" by (simp add: A_def)
  have B: "length B = 6" by (simp add: B_def)
  have C: "length C = 44" by (simp add: C_def)
  have D: "length D = 76" by (simp add: D_def)
  note s = sections_of_concat [OF p A B C]
  show ?thesis
    using s D unfolding A_def [symmetric] B_def [symmetric] C_def [symmetric] D_def [symmetric]
    by simp
qed

section \<open>The interpretation of the model's reply\<close>

lemma Confidence_of_value: "Confidence_of (JStr (Confidence_value c)) = Inr c"
  by (cases c) (simp_all add: Confidence_of_def)

lemma Confidence_of_Inr_iff: "(\<exists>c. Confidence_of v = Inr c) \<longleftrightarrow> is_confidence_value v"
  by (auto simp add: Confidence_of_def is_confidence_value_def)

lemma validate_str_list_strs: "validate_str_list (map JStr ss) = Some ss"
  by (induction ss) (simp_all add: validate_str_def)

lemma validate_str_None_iff: "validate_str v = None \<longleftrightarrow> \<not> is_str v"
  by (cases v) (simp_all add: validate_str_def is_str_def)

lemma validate_str_list_None_iff: "validate_str_list vs = None \<longleftrightarrow> \<not> list_all is_str vs"
proof (induction vs)
  case Nil
  show ?case by simp
next
  case (Cons v vs)
  show ?case
  proof (cases "validate_str v")
    case None
    then show ?thesis by (simp add: validate_str_None_iff [symmetric])
  next
    case (Some s)
    then have "is_str v" using validate_str_None_iff [of v] by simp
    with Some Cons show ?thesis by (cases "validate_str_list vs") simp_all
  qed
qed

lemma validate_list_of_str_None_iff: "validate_list_of_str v = None \<longleftrightarrow> \<not> is_list_of_str v"
  by (cases v) (simp_all add: validate_list_of_str_def is_list_of_str_def validate_str_list_None_iff)

lemma validate_bool_is_bool: "is_bool v \<Longrightarrow> validate_bool lax v \<noteq> None"
  by (cases v) (simp_all add: validate_bool_def is_bool_def)

text \<open>
  Claim C3: for every model-output mapping in which each of the four fields is either
  missing or present with a legal value, the interpretation succeeds; a missing
  \<open>confidence\<close> gives \<open>low\<close>, missing \<open>relevant_quotes\<close> give the empty list, a missing
  \<open>not_found\<close> gives \<open>false\<close> (and a missing \<open>answer\<close> the generic text), and every field
  that is present with a legal value is returned unchanged.
\<close>

theorem interpret_result_legal_fields:
  assumes "result ''answer'' = map_option JStr a"
    and "result ''confidence'' = map_option (\<lambda>x. JStr (Confidence_value x)) c"
    and "result ''relevant_quotes'' = map_option (\<lambda>ss. JArr (map JStr ss)) qs"
    and "result ''not_found'' = map_option JBool nf"
  shows "interpret_result lax_bool result doc_title request_question model elapsed_ms =
     Inr \<lparr> answer = (case a of None \<Rightarrow> ''Unable to generate answer'' | Some s \<Rightarrow> s),
           confidence = (case c of None \<Rightarrow> LOW | Some x \<Rightarrow> x),
           relevant_quotes = (case qs of None \<Rightarrow> [] | Some ss \<Rightarrow> ss),
           not_found = (case nf of None \<Rightarrow> False | Some b \<Rightarrow> b),
           document_title = doc_title, question = request_question,
           model_used = model, processing_time_ms = elapsed_ms \<rparr>"
proof -
  have conf: "Confidence_of (dict_get result ''confidence'' (JStr ''low''))
                = Inr (case c of None \<Rightarrow> LOW | Some x \<Rightarrow> x)"
    using assms(2) by (cases c) (simp_all add: dict_get_def Confidence_of_value, simp add: Confidence_of_def)
  have ans: "validate_str (dict_get result ''answer'' (JStr ''Unable to generate answer''))
                = Some (case a of None \<Rightarrow> ''Unable to generate answer'' | Some s \<Rightarrow> s)"
    using assms(1) by (cases a) (simp_all add: dict_get_def validate_str_def)
  have quo: "validate_list_of_str (dict_get result ''relevant_quotes'' (JArr []))
                = Some (case qs of None \<Rightarrow> [] | Some ss \<Rightarrow> ss)"
    using assms(3)
    by (cases qs) (simp_all add: dict_get_def validate_list_of_str_def validate_str_list_strs)
  have nfd: "validate_bool lax_bool (dict_get result ''not_found'' (JBool False))
                = Some (case nf of None \<Rightarrow> False | Some b \<Rightarrow> b)"
    using assms(4) by (cases nf) (simp_all add: dict_get_def validate_bool_def)
  show ?thesis
    by (simp add: interpret_result_def conf new_AnswerResponse_def ans quo nfd)
qed


theorem interpret_result_legal_fields_witness:
  "[''answer'' \<mapsto> JStr ''Paris'', ''relevant_quotes'' \<mapsto> JArr [JStr ''Paris is the capital'']]
       ''answer'' = map_option JStr (Some ''Paris'')
   \<and> [''answer'' \<mapsto> JStr ''Paris'', ''relevant_quotes'' \<mapsto> JArr [JStr ''Paris is the capital'']]
       ''confidence'' = map_option (\<lambda>x. JStr (Confidence_value x)) None
   \<and> [''answer'' \<mapsto> JStr ''Paris'', ''relevant_quotes'' \<mapsto> JArr [JStr ''Paris is the capital'']]
       ''relevant_quotes'' = map_option (\<lambda>ss. JArr (map JStr ss)) (Some [''Paris is the capital''])
   \<and> [''answer'' \<mapsto> JStr ''Paris'', ''relevant_quotes'' \<mapsto> JArr [JStr ''Paris is the capital'']]
       ''not_found'' = map_option JBool None
   \<and> interpret_result (\<lambda>v. None)
        [''answer'' \<mapsto> JStr ''Paris'', ''relevant_quotes'' \<mapsto> JArr [JStr ''Paris is the capital'']]
        ''Geography'' ''What is the capital?'' ''gpt-4o-mini'' 12.5
      = Inr \<lparr> answer = ''Paris'', confidence = LOW,
              relevant_quotes = [''Paris is the capital''], not_found = False,
              document_title = ''Geography'', question = ''What is the capital?'',
              model_used = ''gpt-4o-mini'', processing_time_ms = 12.5 \<rparr>"
  using interpret_result_legal_fields [of
      "[''answer'' \<mapsto> JStr ''Paris'', ''relevant_quotes'' \<mapsto> JArr [JStr ''Paris is the capital'']]"
      "Some ''Paris''" None "Some [''Paris is the capital'']" None "\<lambda>v. None"
      "''Geography''" "''What is the capital?''" "''gpt-4o-mini''" "12.5"]
  by simp

lemma absent_or_dict_get:
  assumes "P d"
  shows "absent_or P (result key) \<longleftrightarrow> P (dict_get result key d)"
  using assms by (cases "result key") (simp_all add: dict_get_def)

lemma interpret_result_Inr_iff:
  "(\<exists>r. interpret_result lax_bool result t q m ms = Inr r) \<longleftrightarrow> fields_accepted lax_bool result"
proof -
  have a: "absent_or is_str (result ''answer'')
      \<longleftrightarrow> validate_str (dict_get result ''answer'' (JStr ''Unable to generate answer'')) \<noteq> None"
    by (simp add: validate_str_None_iff absent_or_dict_get [where d = "JStr ''Unable to generate answer''"]
        is_str_def)
  have c: "absent_or is_confidence_value (result ''confidence'')
      \<longleftrightarrow> (\<exists>x. Confidence_of (dict_get result ''confidence'' (JStr ''low'')) = Inr x)"
    by (simp add: Confidence_of_Inr_iff absent_or_dict_get [where d = "JStr ''low''"]
        is_confidence_value_def)
  have l: "absent_or is_list_of_str (result ''relevant_quotes'')
      \<longleftrightarrow> validate_list_of_str (dict_get result ''relevant_quotes'' (JArr [])) \<noteq> None"
    by (simp add: validate_list_of_str_None_iff absent_or_dict_get [where d = "JArr []"]
        is_list_of_str_def)
  have b: "absent_or (\<lambda>v. validate_bool lax_bool v \<noteq> None) (result ''not_found'')
      \<longleftrightarrow> validate_bool lax_bool (dict_get result ''not_found'' (JBool False)) \<noteq> None"
    by (cases "result ''not_found''") (simp_all add: dict_get_def validate_bool_def)
  show ?thesis
    unfolding fields_accepted_def a c l b
    by (auto simp add: interpret_result_def new_AnswerResponse_def split: sum.splits option.splits)
qed

lemma interpret_result_error:
  "interpret_result lax_bool result t q m ms = Inl e \<Longrightarrow> e = ValueError"
  by (auto simp add: interpret_result_def new_AnswerResponse_def Confidence_of_def
      split: sum.splits option.splits if_splits)

lemma interpret_result_Inl_iff:
  "interpret_result lax_bool result t q m ms = Inl ValueError \<longleftrightarrow> \<not> fields_accepted lax_bool result"
proof -
  have "interpret_result lax_bool result t q m ms = Inl ValueError
      \<longleftrightarrow> \<not> (\<exists>r. interpret_result lax_bool result t q m ms = Inr r)"
    using interpret_result_error [of lax_bool result t q m ms]
    by (cases "interpret_result lax_bool result t q m ms") auto
  then show ?thesis by (simp add: interpret_result_Inr_iff)
qed

lemma legal_fields_accepted:
  "fields_absent_or_legal result \<Longrightarrow> fields_accepted lax_bool result"
proof -
  have "absent_or is_bool x \<Longrightarrow> absent_or (\<lambda>v. validate_bool lax_bool v \<noteq> None) x" for x
    using validate_bool_is_bool [of _ lax_bool] by (cases x) auto
  then show "fields_absent_or_legal result \<Longrightarrow> fields_accepted lax_bool result"
    by (simp add: fields_absent_or_legal_def fields_accepted_def)
qed

lemma interpret_result_defaults_aux:
  assumes "interpret_result lax_bool result t q m ms = Inr r"
  shows "(result ''answer'' = None \<longrightarrow> answer r = ''Unable to generate answer'')
     \<and> (result ''answer'' = Some (JStr []) \<longrightarrow> answer r = [])
     \<and> (result ''confidence'' = None \<longrightarrow> confidence r = LOW)
     \<and> (result ''relevant_quotes'' = None \<longrightarrow> relevant_quotes r = [])
     \<and> (result ''not_found'' = None \<longrightarrow> not_found r = False)"
  using assms
  by (auto simp add: interpret_result_def new_AnswerResponse_def dict_get_def Confidence_of_def
      validate_str_def validate_list_of_str_def validate_bool_def
      split: sum.splits option.splits if_splits)

text \<open>
  Claim C1, as amended: a field that is absent is replaced by its default (\<open>low\<close>, the
  empty sequence, \<open>false\<close>, the generic answer text), and the interpretation does not fail
  when every field is absent or legal. A value that is present is never replaced: the
  interpretation fails, with \<open>ValueError\<close>, exactly when a present field is not accepted
  (an \<open>answer\<close> that is not a string, a \<open>confidence\<close> that is not one of the three values,
  \<open>relevant_quotes\<close> that is not a list of strings, a \<open>not_found\<close> that the validation of
  a boolean refuses), and an \<open>answer\<close> that is the empty string is returned empty.
\<close>

theorem interpret_result_defaults:
  "((\<exists>r. interpret_result lax_bool result t q m ms = Inr r) \<longleftrightarrow> fields_accepted lax_bool result)
   \<and> (interpret_result lax_bool result t q m ms = Inl ValueError
        \<longleftrightarrow> \<not> fields_accepted lax_bool result)
   \<and> (fields_absent_or_legal result \<longrightarrow> fields_accepted lax_bool result)
   \<and> (\<forall>r. interpret_result lax_bool result t q m ms = Inr r \<longrightarrow>
         (result ''answer'' = None \<longrightarrow> answer r = ''Unable to generate answer'')
       \<and> (result ''answer'' = Some (JStr []) \<longrightarrow> answer r = [])
       \<and> (result ''confidence'' = None \<longrightarrow> confidence r = LOW)
       \<and> (result ''relevant_quotes'' = None \<longrightarrow> relevant_quotes r = [])
       \<and> (result ''not_found'' = None \<longrightarrow> not_found r = False))"
  using interpret_result_Inr_iff [of lax_bool result t q m ms]
    interpret_result_Inl_iff [of lax_bool result t q m ms]
    legal_fields_accepted [of result lax_bool]
    interpret_result_defaults_aux [of lax_bool result t q m ms]
  by blast

theorem interpret_result_defaults_witness:
  "fields_absent_or_legal [''answer'' \<mapsto> JStr ''Paris'']
   \<and> fields_accepted (\<lambda>v. None) [''answer'' \<mapsto> JStr ''Paris'']
   \<and> interpret_result (\<lambda>v. None) [''answer'' \<mapsto> JStr ''Paris'']
         ''Geography'' ''What is the capital?'' ''gpt-4o-mini'' 12.5
       = Inr \<lparr> answer = ''Paris'', confidence = LOW, relevant_quotes = [], not_found = False,
              document_title = ''Geography'', question = ''What is the capital?'',
              model_used = ''gpt-4o-mini'', processing_time_ms = 12.5 \<rparr>
   \<and> \<not> fields_accepted (\<lambda>v. None) [''confidence'' \<mapsto> JStr ''HIGH'']
   \<and> interpret_result (\<lambda>v. None) [''confidence'' \<mapsto> JStr ''HIGH'']
         ''Geography'' ''What is the capital?'' ''gpt-4o-mini'' 12.5 = Inl ValueError"
proof -
  have legal: "fields_absent_or_legal [''answer'' \<mapsto> JStr ''Paris'']"
    by (simp add: fields_absent_or_legal_def is_str_def)
  have refused: "\<not> fields_accepted (\<lambda>v. None) [''confidence'' \<mapsto> JStr ''HIGH'']"
    by (simp add: fields_accepted_def is_confidence_value_def)
  have val: "interpret_result (\<lambda>v. None) [''answer'' \<mapsto> JStr ''Paris'']
         ''Geography'' ''What is the capital?'' ''gpt-4o-mini'' 12.5
       = Inr \<lparr> answer = ''Paris'', confidence = LOW, relevant_quotes = [], not_found = False,
              document_title = ''Geography'', question = ''What is the capital?'',
              model_used = ''gpt-4o-mini'', processing_time_ms = 12.5 \<rparr>"
    by (simp add: interpret_result_def new_AnswerResponse_def dict_get_def Confidence_of_def
        validate_str_def validate_list_of_str_def validate_bool_def)
  from legal have accepted: "fields_accepted (\<lambda>v. None) [''answer'' \<mapsto> JStr ''Paris'']"
    using interpret_result_defaults [of "\<lambda>v. None" "[''answer'' \<mapsto> JStr ''Paris'']"
      "''Geography''" "''What is the capital?''" "''gpt-4o-mini''" "12.5"]
    by blast
  from refused have err: "interpret_result (\<lambda>v. None) [''confidence'' \<mapsto> JStr ''HIGH'']
         ''Geography'' ''What is the capital?'' ''gpt-4o-mini'' 12.5 = Inl ValueError"
    using interpret_result_defaults [of "\<lambda>v. None" "[''confidence'' \<mapsto> JStr ''HIGH'']"
      "''Geography''" "''What is the capital?''" "''gpt-4o-mini''" "12.5"]
    by blast
  from legal accepted val refused err show ?thesis by blast
qed

text \<open>
  The statement of C1 itself fails: a \<open>confidence\<close> outside the three values,
  \<open>relevant_quotes\<close> that is a string and a \<open>not_found\<close> that is \<open>null\<close> each raise
  \<open>ValueError\<close> instead of being replaced by the default, and an empty \<open>answer\<close> stays
  empty.
\<close>

theorem interpret_result_illegal_values:
  "interpret_result (\<lambda>v. None)
       [''answer'' \<mapsto> JStr ''Paris'', ''confidence'' \<mapsto> JStr ''very high'']
       ''Geography'' ''What is the capital?'' ''gpt-4o-mini'' 12.5 = Inl ValueError
   \<and> interpret_result (\<lambda>v. None)
       [''answer'' \<mapsto> JStr ''Paris'', ''relevant_quotes'' \<mapsto> JStr ''a quote'']
       ''Geography'' ''What is the capital?'' ''gpt-4o-mini'' 12.5 = Inl ValueError
   \<and> interpret_result (\<lambda>v. None) [''answer'' \<mapsto> JStr ''Paris'', ''not_found'' \<mapsto> JNull]
       ''Geography'' ''What is the capital?'' ''gpt-4o-mini'' 12.5 = Inl ValueError
   \<and> interpret_result (\<lambda>v. None) [''answer'' \<mapsto> JStr [], ''confidence'' \<mapsto> JStr ''high'']
       ''Geography'' ''What is the capital?'' ''gpt-4o-mini'' 12.5
      = Inr \<lparr> answer = [], confidence = HIGH, relevant_quotes = [], not_found = False,
              document_title = ''Geography'', question = ''What is the capital?'',
              model_used = ''gpt-4o-mini'', processing_time_ms = 12.5 \<rparr>"
  by (simp add: interpret_result_def new_AnswerResponse_def dict_get_def Confidence_of_def
      validate_str_def validate_list_of_str_def validate_bool_def)

section \<open>The outcomes of a question\<close>

lemma answer_question_eq:
  "answer_question cfg client decode c q t =
     generate_json client decode (build_prompt t (reduce_context (context_max_chars cfg) c) q)"
  by (simp add: answer_question_def Let_def)

text \<open>
  Claim C2, as amended. For a stored document and every raw model output, with the decoding
  of the reply modelled from the specification: the question is answered with 500 when the
  model call fails; with 422 when the whole reply cannot be decoded (the malformed-response
  condition), and also when the reply is decoded but a field that is present is not
  accepted; otherwise the complete answer is returned. A field that is merely missing never
  makes it fail: a mapping whose fields are each absent or legal is accepted. An error and
  an answer exclude each other, so no partial answer goes with a failure.
\<close>

theorem ask_question_outcomes:
  assumes "get store doc_id = Some doc"
    and "prompt = build_prompt (title doc)
                    (reduce_context (context_max_chars cfg) (content doc)) q"
  shows "(client prompt = None \<longrightarrow>
            ask_question cfg client decode lax_bool elapsed_ms store doc_id (QuestionRequest q)
              = Inl (HTTPException 500))
     \<and> (\<forall>raw. client prompt = Some raw \<and> decode raw = None \<longrightarrow>
            ask_question cfg client decode lax_bool elapsed_ms store doc_id (QuestionRequest q)
              = Inl (HTTPException 422))
     \<and> (\<forall>raw result. client prompt = Some raw \<and> decode raw = Some result
            \<and> \<not> fields_accepted lax_bool result \<longrightarrow>
            ask_question cfg client decode lax_bool elapsed_ms store doc_id (QuestionRequest q)
              = Inl (HTTPException 422))
     \<and> (\<forall>raw result. client prompt = Some raw \<and> decode raw = Some result
            \<and> fields_accepted lax_bool result \<longrightarrow>
            (\<exists>r. interpret_result lax_bool result (title doc) q (openai_model cfg) elapsed_ms
                   = Inr r
               \<and> ask_question cfg client decode lax_bool elapsed_ms store doc_id
                   (QuestionRequest q) = Inr r))
     \<and> (\<forall>result. fields_absent_or_legal result \<longrightarrow> fields_accepted lax_bool result)"
proof -
  let ?ask = "ask_question cfg client decode lax_bool elapsed_ms store doc_id (QuestionRequest q)"
  have gen: "answer_question cfg client decode (content doc) q (title doc)
               = generate_json client decode prompt"
    by (simp add: answer_question_eq assms(2))
  have failed: "?ask = Inl (HTTPException 500)" if "client prompt = None"
    using that assms(1) by (simp add: gen generate_json_def)
  have unparseable: "?ask = Inl (HTTPException 422)"
    if "client prompt = Some raw" and "decode raw = None" for raw
    using that assms(1) by (simp add: gen generate_json_def)
  have refused: "?ask = Inl (HTTPException 422)"
    if "client prompt = Some raw" and "decode raw = Some result"
      and "\<not> fields_accepted lax_bool result" for raw result
  proof -
    from that(3) have "interpret_result lax_bool result (title doc) q (openai_model cfg) elapsed_ms
        = Inl ValueError"
      by (simp add: interpret_result_Inl_iff)
    with that(1,2) assms(1) show ?thesis by (simp add: gen generate_json_def)
  qed
  have accepted: "\<exists>r. interpret_result lax_bool result (title doc) q (openai_model cfg) elapsed_ms
                   = Inr r \<and> ?ask = Inr r"
    if "client prompt = Some raw" and "decode raw = Some result"
      and "fields_accepted lax_bool result" for raw result
  proof -
    from that(3) obtain r where
      "interpret_result lax_bool result (title doc) q (openai_model cfg) elapsed_ms = Inr r"
      using interpret_result_Inr_iff by blast
    with that(1,2) assms(1) show ?thesis by (simp add: gen generate_json_def)
  qed
  show ?thesis
    using failed unparseable refused accepted legal_fields_accepted by blast
qed

theorem ask_question_outcomes_witness:
  "get
      \<lparr> documents = [(''1a2b3c4d'',
            \<lparr> content = ''Paris is the capital.'', title = ''Geography'', word_count = 4,
              character_count = 21, created_at = ''2026-11-03T00:00:00'' \<rparr>)] \<rparr>
      ''1a2b3c4d''
     = Some \<lparr> content = ''Paris is the capital.'', title = ''Geography'', word_count = 4,
              character_count = 21, created_at = ''2026-11-03T00:00:00'' \<rparr>
   \<and> ask_question default_settings
        (\<lambda>prompt. None)
        (\<lambda>raw. if raw = ''{}'' then Some Map.empty else None)
        (\<lambda>v. None) 12.5
        \<lparr> documents = [(''1a2b3c4d'',
            \<lparr> content = ''Paris is the capital.'', title = ''Geography'', word_count = 4,
              character_count = 21, created_at = ''2026-11-03T00:00:00'' \<rparr>)] \<rparr>
        ''1a2b3c4d'' (QuestionRequest ''What is the capital?'')
       = Inl (HTTPException 500)
   \<and> ask_question default_settings
        (\<lambda>prompt. Some ''Sorry, I cannot help.'')
        (\<lambda>raw. if raw = ''{}'' then Some Map.empty else None)
        (\<lambda>v. None) 12.5
        \<lparr> documents = [(''1a2b3c4d'',
            \<lparr> content = ''Paris is the capital.'', title = ''Geography'', word_count = 4,
              character_count = 21, created_at = ''2026-11-03T00:00:00'' \<rparr>)] \<rparr>
        ''1a2b3c4d'' (QuestionRequest ''What is the capital?'')
       = Inl (HTTPException 422)
   \<and> ask_question default_settings
        (\<lambda>prompt. Some ''{}'')
        (\<lambda>raw. if raw = ''{}'' then Some Map.empty else None)
        (\<lambda>v. None) 12.5
        \<lparr> documents = [(''1a2b3c4d'',
            \<lparr> content = ''Paris is the capital.'', title = ''Geography'', word_count = 4,
              character_count = 21, created_at = ''2026-11-03T00:00:00'' \<rparr>)] \<rparr>
        ''1a2b3c4d'' (QuestionRequest ''What is the capital?'')
       = Inr \<lparr> answer = ''Unable to generate answer'', confidence = LOW, relevant_quotes = [],
               not_found = False, document_title = ''Geography'',
               question = ''What is the capital?'', model_used = ''gpt-4o-mini'',
               processing_time_ms = 12.5 \<rparr>"
proof -
  let ?doc = "\<lparr> content = ''Paris is the capital.'', title = ''Geography'', word_count = 4,
              character_count = 21, created_at = ''2026-11-03T00:00:00'' \<rparr>"
  let ?store = "\<lparr> documents = [(''1a2b3c4d'', ?doc)] \<rparr>"
  let ?decode = "(\<lambda>raw. if raw = ''{}'' then Some Map.empty else None)"
  have g: "get ?store ''1a2b3c4d'' = Some ?doc"
    by (simp add: get_def)
  note outcomes = ask_question_outcomes [OF g refl, where decode = ?decode
      and lax_bool = "\<lambda>v. None" and cfg = default_settings and elapsed_ms = "12.5"
      and q = "''What is the capital?''"]
  have failed: "ask_question default_settings (\<lambda>prompt. None) ?decode (\<lambda>v. None) 12.5 ?store
        ''1a2b3c4d'' (QuestionRequest ''What is the capital?'') = Inl (HTTPException 500)"
    using outcomes [where client = "\<lambda>prompt. None"] by simp
  have "?decode ''Sorry, I cannot help.'' = None" by simp
  then have unparseable: "ask_question default_settings (\<lambda>prompt. Some ''Sorry, I cannot help.'')
        ?decode (\<lambda>v. None) 12.5 ?store ''1a2b3c4d'' (QuestionRequest ''What is the capital?'')
       = Inl (HTTPException 422)"
    using outcomes [where client = "\<lambda>prompt. Some ''Sorry, I cannot help.''"] by blast
  have dec: "?decode ''{}'' = Some Map.empty" by simp
  have acc: "fields_accepted (\<lambda>v. None) Map.empty"
    by (simp add: fields_accepted_def)
  have val: "interpret_result (\<lambda>v. None) Map.empty (title ?doc) ''What is the capital?''
        (openai_model default_settings) 12.5
       = Inr \<lparr> answer = ''Unable to generate answer'', confidence = LOW, relevant_quotes = [],
               not_found = False, document_title = ''Geography'',
               question = ''What is the capital?'', model_used = ''gpt-4o-mini'',
               processing_time_ms = 12.5 \<rparr>"
    by (simp add: interpret_result_def new_AnswerResponse_def dict_get_def Confidence_of_def
        validate_str_def validate_list_of_str_def validate_bool_def default_settings_def)
  have "\<exists>r. interpret_result (\<lambda>v. None) Map.empty (title ?doc) ''What is the capital?''
        (openai_model default_settings) 12.5 = Inr r
      \<and> ask_question default_settings (\<lambda>prompt. Some ''{}'') ?decode (\<lambda>v. None)
        12.5 ?store ''1a2b3c4d'' (QuestionRequest ''What is the capital?'') = Inr r"
    using outcomes [where client = "\<lambda>prompt. Some ''{}''"] dec acc by blast
  with val have answered: "ask_question default_settings (\<lambda>prompt. Some ''{}'') ?decode
        (\<lambda>v. None) 12.5 ?store ''1a2b3c4d'' (QuestionRequest ''What is the capital?'')
       = Inr \<lparr> answer = ''Unable to generate answer'', confidence = LOW, relevant_quotes = [],
               not_found = False, document_title = ''Geography'',
               question = ''What is the capital?'', model_used = ''gpt-4o-mini'',
               processing_time_ms = 12.5 \<rparr>"
    by auto
  from g failed unparseable answered show ?thesis by blast
qed

text \<open>
  The statement of C2 itself fails: a reply that decodes to a mapping, with \<open>answer\<close>
  present and a \<open>confidence\<close> outside the three values, is answered with 422 although the
  output is parseable, since \<open>Confidence(...)\<close> raises \<open>ValueError\<close>.
\<close>

theorem ask_question_refused_value:
  \<open>(\<lambda>raw. if raw = ''{"answer": "Paris", "confidence": "very high"}''
          then Some [''answer'' \<mapsto> JStr ''Paris'', ''confidence'' \<mapsto> JStr ''very high'']
          else None)
      ''{"answer": "Paris", "confidence": "very high"}''
     = Some [''answer'' \<mapsto> JStr ''Paris'', ''confidence'' \<mapsto> JStr ''very high'']
   \<and> ask_question default_settings
        (\<lambda>prompt. Some ''{"answer": "Paris", "confidence": "very high"}'')
        (\<lambda>raw. if raw = ''{"answer": "Paris", "confidence": "very high"}''
          then Some [''answer'' \<mapsto> JStr ''Paris'', ''confidence'' \<mapsto> JStr ''very high'']
          else None)
        (\<lambda>v. None) 12.5
        \<lparr> documents = [(''1a2b3c4d'',
            \<lparr> content = ''Paris is the capital.'', title = ''Geography'', word_count = 4,
              character_count = 21, created_at = ''2026-11-03T00:00:00'' \<rparr>)] \<rparr>
        ''1a2b3c4d'' (QuestionRequest ''What is the capital?'')
      = Inl (HTTPException 422)\<close>
  by (simp add: get_def answer_question_def generate_json_def interpret_result_def
      dict_get_def Confidence_of_def)

end
